theory Spec2Isabelle
  imports Main "HOL-Library.Word"
begin

section \<open>Exceptions and the operating-system interface\<close>

text \<open>
  The module \<^verbatim>\<open>bmaptools/BmapHelpers.py\<close> is modelled with the semantics of
  Python 2, the interpreter it was written for: \<^verbatim>\<open>str\<close> is a byte string (here
  \<^typ>\<open>string\<close>), the output of a child process is a \<^verbatim>\<open>str\<close>, and
  \<^verbatim>\<open>IOError\<close> is the exception raised by \<^verbatim>\<open>ioctl\<close> and
  \<^verbatim>\<open>open\<close>.

  An exception is a value: \<open>Error msg\<close> is the module's own class
  \<^verbatim>\<open>class Error(Exception)\<close>, \<open>IOError msg\<close> the builtin one.  A function that may
  raise returns \<open>exn + 'a\<close>, with \<open>Inl\<close> for the exception.  \<open>is_Error e\<close> says that
  \<open>e\<close> is an instance of the class \<^verbatim>\<open>Error\<close>, \<open>is_IOError e\<close> that it is one of
  \<^verbatim>\<open>IOError\<close>.
\<close>

datatype exn = is_Error: Error string | is_IOError: IOError string

text \<open>
  What \<^verbatim>\<open>os.fstat\<close> returns.  The field \<^verbatim>\<open>st_blksize\<close> is absent on some
  platforms (\<^verbatim>\<open>hasattr(stat, 'st_blksize')\<close> is then false): \<open>None\<close>.
\<close>

record stat_result =
  st_blksize :: "int option"

text \<open>
  An open file object, as far as \<^verbatim>\<open>get_block_size\<close> looks at it: the outcome
  of \<^verbatim>\<open>ioctl(file_obj, 2, struct.pack('I', 0))\<close>, which is either an
  \<^verbatim>\<open>IOError\<close> (its text) or the four bytes that \<^verbatim>\<open>struct.unpack('I', _)\<close>
  reads as an unsigned 32-bit integer, and the result of
  \<^verbatim>\<open>os.fstat(file_obj.fileno())\<close>.
\<close>

record file_obj =
  ioctl_FIGETBSZ :: "string + 32 word"
  fstat :: stat_result

section \<open>get\_block\_size\<close>

text \<open>
  The body of the \<^verbatim>\<open>try\<close> block: the ioctl, the unpacking, and the
  \<^verbatim>\<open>raise IOError\<close> on a zero block size, which is raised inside the
  \<^verbatim>\<open>try\<close> and so reaches the same handler as a failing ioctl.
\<close>

definition try_FIGETBSZ :: "file_obj \<Rightarrow> exn + int" where
  "try_FIGETBSZ file_obj =
     (case ioctl_FIGETBSZ file_obj of
        Inl err \<Rightarrow> Inl (IOError err)
      | Inr binary_data \<Rightarrow>
          (let bsize = uint binary_data
           in if bsize = 0 then Inl (IOError ''get 0 bsize by FIGETBSZ ioctl'')
              else Inr bsize))"

definition get_block_size :: "file_obj \<Rightarrow> exn + int" where
  "get_block_size file_obj =
     (case try_FIGETBSZ file_obj of
        Inr bsize \<Rightarrow> Inr bsize
      | Inl (IOError err) \<Rightarrow>
          (let stat = fstat file_obj
           in case st_blksize stat of
                Some bsize \<Rightarrow> Inr bsize
              | None \<Rightarrow> Inl (IOError ''Unable to determine block size''))
      | Inl (Error err) \<Rightarrow> Inl (Error err))"

section \<open>Byte strings\<close>

text \<open>
  The string methods of Python 2 that the module calls, on byte strings in the C locale.
  \<^verbatim>\<open>isspace\<close> is true of space, tab, line feed, vertical tab, form feed and carriage
  return.
\<close>

definition isspace :: "char \<Rightarrow> bool" where
  "isspace c \<longleftrightarrow> c \<in> set [CHR 0x20, CHR 0x09, CHR 0x0A, CHR 0x0B, CHR 0x0C, CHR 0x0D]"

text \<open>\<^verbatim>\<open>str.lower()\<close>: the letters A to Z become a to z, every other byte stays.\<close>

definition lower_char :: "char \<Rightarrow> char" where
  "lower_char c =
     (case map_of (zip ''ABCDEFGHIJKLMNOPQRSTUVWXYZ'' ''abcdefghijklmnopqrstuvwxyz'') c of
        Some d \<Rightarrow> d
      | None \<Rightarrow> c)"

definition lower :: "string \<Rightarrow> string" where
  "lower s = map lower_char s"

text \<open>
  \<^verbatim>\<open>str.splitlines()\<close>: a line ends at a line feed, at a carriage return or
  at a carriage return followed by a line feed; the line ends are dropped, and a
  string that ends with a line end has no empty last line.  The first argument is the
  line read so far, reversed.
\<close>

fun splitlines_from :: "string \<Rightarrow> string \<Rightarrow> string list" where
  "splitlines_from cur [] = (if cur = [] then [] else [rev cur])"
| "splitlines_from cur (c # cs) =
     (if c = CHR 0x0A then rev cur # splitlines_from [] cs
      else if c = CHR 0x0D then
        (case cs of
           d # ds \<Rightarrow> if d = CHR 0x0A then rev cur # splitlines_from [] ds
                     else rev cur # splitlines_from [] cs
         | [] \<Rightarrow> rev cur # splitlines_from [] cs)
      else splitlines_from (c # cur) cs)"

definition splitlines :: "string \<Rightarrow> string list" where
  "splitlines s = splitlines_from [] s"

text \<open>
  \<^verbatim>\<open>s.split(None, maxsplit)\<close>: skip white space, cut a field at the next white
  space, at most \<open>maxsplit\<close> times; what is left after the last cut, without its
  leading white space, is the last item if it is not empty.
\<close>

primrec split_None :: "nat \<Rightarrow> string \<Rightarrow> string list" where
  "split_None 0 s = (let r = dropWhile isspace s in if r = [] then [] else [r])"
| "split_None (Suc maxsplit) s =
     (let r = dropWhile isspace s
      in if r = [] then []
         else takeWhile (\<lambda>c. \<not> isspace c) r
              # split_None maxsplit (dropWhile (\<lambda>c. \<not> isspace c) r))"

text \<open>
  \<^verbatim>\<open>s.split()\<close>, with no bound on the number of cuts: the white-space separated
  fields of \<open>s\<close>.
\<close>

function split_ws :: "string \<Rightarrow> string list" where
  "split_ws s =
     (let r = dropWhile isspace s
      in if r = [] then []
         else takeWhile (\<lambda>c. \<not> isspace c) r # split_ws (dropWhile (\<lambda>c. \<not> isspace c) r))"
  by pat_completeness auto
termination
proof (relation "measure length")
  show "wf (measure length)" by simp
next
  fix s r :: string
  assume r: "r = dropWhile isspace s" and ne: "r \<noteq> []"
  from ne obtain c cs where rc: "r = c # cs" by (cases r) simp_all
  from r ne have "\<not> isspace (hd r)" by (simp add: hd_dropWhile)
  with rc have "\<not> isspace c" by simp
  with rc have "length (dropWhile (\<lambda>c. \<not> isspace c) r) \<le> length cs"
    by (simp add: length_dropWhile_le)
  also have "length cs < length r" using rc by simp
  also have "length r \<le> length s" using r by (simp add: length_dropWhile_le)
  finally show "(dropWhile (\<lambda>c. \<not> isspace c) r, s) \<in> measure length" by simp
qed

declare split_ws.simps [simp del]

text \<open>
  \<^verbatim>\<open>f.readline()\<close> on a file just opened for reading: the content up to and
  including the first line feed, or all of it when there is none.
\<close>

fun readline :: "string \<Rightarrow> string" where
  "readline [] = []"
| "readline (c # cs) = (if c = CHR 0x0A then [c] else c # readline cs)"

text \<open>
  \<^verbatim>\<open>int(s)\<close> on a byte string: white space around the number is dropped, one
  sign is allowed, and at least one decimal digit must follow, with nothing else.
  \<open>None\<close> is the \<^verbatim>\<open>ValueError\<close>.
\<close>

definition digit_of :: "char \<Rightarrow> int option" where
  "digit_of c = map_of (zip ''0123456789'' [0, 1, 2, 3, 4, 5, 6, 7, 8, 9]) c"

fun parse_digits :: "int \<Rightarrow> string \<Rightarrow> int option" where
  "parse_digits acc [] = Some acc"
| "parse_digits acc (c # cs) =
     (case digit_of c of
        None \<Rightarrow> None
      | Some d \<Rightarrow> parse_digits (10 * acc + d) cs)"

definition strip :: "string \<Rightarrow> string" where
  "strip s = rev (dropWhile isspace (rev (dropWhile isspace s)))"

definition py_int :: "string \<Rightarrow> int option" where
  "py_int s =
     (let t = strip s;
          (sign, digits) =
            (case t of
               [] \<Rightarrow> (1, [])
             | c # r \<Rightarrow> if c = CHR ''-'' then (- 1, r)
                        else if c = CHR ''+'' then (1, r)
                        else (1, t))
      in if digits = [] then None
         else map_option (\<lambda>v. sign * v) (parse_digits 0 digits))"

text \<open>
  The text of that \<^verbatim>\<open>ValueError\<close>, which ends with \<^verbatim>\<open>repr(s)\<close>: the string in
  single quotes (in double quotes when it holds a single quote and no double quote),
  with the quote, the backslash and the bytes outside the printable ASCII range escaped.
  This is the text for a line of fewer than 200 bytes without a NUL byte.
\<close>

definition hex_digit :: "nat \<Rightarrow> char" where
  "hex_digit n = ''0123456789abcdef'' ! (n mod 16)"

definition repr_char :: "char \<Rightarrow> char \<Rightarrow> string" where
  "repr_char quote c =
     (if c = quote \<or> c = CHR 0x5C then [CHR 0x5C, c]
      else if c = CHR 0x09 then [CHR 0x5C, CHR ''t'']
      else if c = CHR 0x0A then [CHR 0x5C, CHR ''n'']
      else if c = CHR 0x0D then [CHR 0x5C, CHR ''r'']
      else if (of_char c :: nat) < 32 \<or> 127 \<le> (of_char c :: nat)
        then [CHR 0x5C, CHR ''x'', hex_digit (of_char c div 16), hex_digit (of_char c)]
      else [c])"

definition py_repr :: "string \<Rightarrow> string" where
  "py_repr s =
     (let quote = (if CHR 0x27 \<in> set s \<and> CHR 0x22 \<notin> set s then CHR 0x22 else CHR 0x27)
      in quote # concat (map (repr_char quote) s) @ [quote])"

definition int_ValueError :: "string \<Rightarrow> string" where
  "int_ValueError s = ''invalid literal for int() with base 10: '' @ py_repr s"

section \<open>The host\<close>

text \<open>
  The functions of the module ask the host four things, which are the fields of
  \<open>os_env\<close>:
  \<^item> \<open>realpath\<close> is \<^verbatim>\<open>os.path.realpath\<close> and \<open>ismount\<close> is
    \<^verbatim>\<open>os.path.ismount\<close>;
  \<^item> \<open>df_T f\<close> is what \<^verbatim>\<open>proc.communicate()\<close> returns for the child process
    \<^verbatim>\<open>df -T -- f\<close>: its standard output and its standard error;
  \<^item> \<open>isfile\<close> is \<^verbatim>\<open>os.path.isfile\<close>;
  \<^item> \<open>open_r fp\<close> is the outcome of \<^verbatim>\<open>open(fp, 'r')\<close>: the text of the
    \<^verbatim>\<open>IOError\<close>, or the content of the file, which is then read without error.

  The host does not change during one call.  Failures of the host that the module has
  no handler for and that are not its own (no \<^verbatim>\<open>df\<close> program to start, a file
  descriptor that \<^verbatim>\<open>os.fstat\<close> rejects) are outside the model.
\<close>

record os_env =
  realpath :: "string \<Rightarrow> string"
  ismount :: "string \<Rightarrow> bool"
  df_T :: "string \<Rightarrow> string \<times> string"
  isfile :: "string \<Rightarrow> bool"
  open_r :: "string \<Rightarrow> string + string"

definition os_sep :: string where
  "os_sep = ''/''"

definition os_pardir :: string where
  "os_pardir = ''..''"

text \<open>
  \<^verbatim>\<open>os.path.join(a, b)\<close> of \<^verbatim>\<open>posixpath\<close>: an absolute \<open>b\<close> replaces \<open>a\<close>;
  otherwise \<open>b\<close> is appended, after a slash unless \<open>a\<close> is empty or ends with one.
\<close>

definition os_path_join :: "string \<Rightarrow> string \<Rightarrow> string" where
  "os_path_join a b =
     (if take 1 b = ''/'' then b
      else if a = [] \<or> take 1 (rev a) = ''/'' then a @ b
      else a @ ''/'' @ b)"

section \<open>get\_mount\_point\<close>

text \<open>
  The \<^verbatim>\<open>while\<close> loop of \<^verbatim>\<open>get_mount_point\<close>, from the value of \<open>f\<close> at the
  loop's head.  The loop has no bound of its own, so the function is partial: \<open>None\<close>
  is the loop that never leaves.
\<close>

partial_function (option) mount_point_loop :: "os_env \<Rightarrow> string \<Rightarrow> string option" where
  [code]: "mount_point_loop env f =
     (if f \<noteq> os_sep then
        (if ismount env f then Some f
         else mount_point_loop env (realpath env (os_path_join f os_pardir)))
      else Some f)"

definition get_mount_point :: "os_env \<Rightarrow> string \<Rightarrow> string option" where
  "get_mount_point env filepath = mount_point_loop env (realpath env filepath)"

section \<open>get\_file\_system\_type\<close>

text \<open>
  The value of \<open>ftype\<close> after the parsing of the standard output; \<open>None\<close> is
  Python's \<^verbatim>\<open>None\<close>.
\<close>

definition parse_ftype :: "string \<Rightarrow> string option" where
  "parse_ftype stdout =
     (if stdout \<noteq> [] then
        (let t = splitlines stdout
         in if length t \<ge> 2 then
              (let t = split_None 2 (t ! 1)
               in if length t \<ge> 2 then Some (lower (t ! 1)) else None)
            else None)
      else None)"

definition get_file_system_type :: "os_env \<Rightarrow> string \<Rightarrow> exn + string" where
  "get_file_system_type env filepath =
     (let f = realpath env filepath;
          (stdout, stderr) = df_T env f;
          ftype = parse_ftype stdout
      in case ftype of
           None \<Rightarrow> Inl (Error (''no file system type was found: '' @ stderr))
         | Some t \<Rightarrow>
             if t = [] then Inl (Error (''no file system type was found: '' @ stderr))
             else Inr t)"

section \<open>is\_zfs\_compatible and is\_compatible\_file\_system\<close>

definition get_zfs_compat_param_path :: string where
  "get_zfs_compat_param_path = ''/sys/module/zfs/parameters/zfs_dmu_offset_next_sync''"

definition is_zfs_compatible :: "os_env \<Rightarrow> exn + bool" where
  "is_zfs_compatible env =
     (let fp = get_zfs_compat_param_path
      in if isfile env fp then
           (case open_r env fp of
              Inl err \<Rightarrow>
                Inl (Error (''cannot open zfs param path '' @ [CHR 0x27] @ fp @ [CHR 0x27]
                            @ '': '' @ err))
            | Inr f \<Rightarrow>
                (case py_int (readline f) of
                   None \<Rightarrow>
                     Inl (Error (''invalid value read from param path '' @ [CHR 0x27] @ fp
                                 @ [CHR 0x27] @ '': '' @ int_ValueError (readline f)))
                 | Some v \<Rightarrow> Inr (1 = v)))
         else Inr False)"


section \<open>Example hosts\<close>

text \<open>
  A host with a file system mounted on \<^verbatim>\<open>/mnt\<close> and one symbolic link,
  \<^verbatim>\<open>/tmp/link.img -> /mnt/data/image.img\<close>.  Its \<open>realpath\<close> is given for the
  paths that the examples ask for: the link gives its target, a path that ends with
  \<^verbatim>\<open>/..\<close> gives the parent directory, and a canonical path is returned as it is.
  The host is built from what varies between the examples: the two outputs of
  \<^verbatim>\<open>df\<close>, and the outcome of opening the ZFS parameter file, \<open>None\<close> when the
  file does not exist.
\<close>

definition plain_realpath :: "string \<Rightarrow> string" where
  "plain_realpath p =
     (case map_of [(''/mnt/data/image.img/..'', ''/mnt/data''),
                   (''/mnt/data/..'', ''/mnt''),
                   (''/mnt/..'', ''/''),
                   (''/tmp/link.img'', ''/mnt/data/image.img'')] p of
        Some q \<Rightarrow> q
      | None \<Rightarrow> p)"

definition plain_host :: "string \<times> string \<Rightarrow> (string + string) option \<Rightarrow> os_env" where
  "plain_host df param =
     \<lparr>realpath = plain_realpath,
      ismount = (\<lambda>p. p \<in> set [''/'', ''/mnt'']),
      df_T = (\<lambda>f. df),
      isfile = (\<lambda>p. p = get_zfs_compat_param_path \<and> param \<noteq> None),
      open_r = (\<lambda>p. case param of
                        Some r \<Rightarrow> r
                      | None \<Rightarrow> Inl ''[Errno 2] No such file or directory'')\<rparr>"

definition df_header :: string where
  "df_header = ''Filesystem     Type 1K-blocks    Used Available Use% Mounted on''"

definition df_ext4 :: "string \<times> string" where
  "df_ext4 =
     (df_header @ [CHR 0x0A] @ ''/dev/sdb1      EXT4  41152736 8123456  30915816  21% /mnt''
        @ [CHR 0x0A], [])"

definition df_zfs :: "string \<times> string" where
  "df_zfs =
     (df_header @ [CHR 0x0A] @ ''tank/data      zfs   41152736 8123456  30915816  21% /mnt''
        @ [CHR 0x0A], [])"

definition df_failed :: "string \<times> string" where
  "df_failed = ([], ''df: /mnt/data/image.img: No such file or directory'' @ [CHR 0x0A])"

definition df_header_only :: "string \<times> string" where
  "df_header_only = (df_header @ [CHR 0x0A], [])"

text \<open>
  A host with two symbolic links that point at each other:
  \<^verbatim>\<open>/x/a -> /x/b/c\<close> and \<^verbatim>\<open>/x/b -> /x/a\<close>, beside a link \<^verbatim>\<open>/x/l -> l\<close> to
  itself and a link \<^verbatim>\<open>/x/m -> /\<close> to the root, with a file system mounted on
  \<^verbatim>\<open>/proc\<close>.  On a loop of links \<^verbatim>\<open>os.path.realpath\<close> gives up: it returns the
  part it has resolved joined with the rest of the path, made absolute and normalised
  by \<^verbatim>\<open>abspath\<close>, which folds a trailing \<^verbatim>\<open>c/..\<close> away.  The table holds the
  values of \<^verbatim>\<open>os.path.realpath\<close> of CPython's \<^verbatim>\<open>posixpath\<close> on this host for
  the paths that the examples ask for.  \<^verbatim>\<open>os.path.ismount\<close> is false of a path
  that the kernel cannot resolve, such as \<^verbatim>\<open>/x/a/c\<close>.
\<close>

definition loop_realpath :: "string \<Rightarrow> string" where
  "loop_realpath p =
     (case map_of [(''/x/a'', ''/x/a/c''),
                   (''/x/a/c'', ''/x/a/c/c''),
                   (''/x/a/c/..'', ''/x/a/c''),
                   (''/x/b'', ''/x/b/c''),
                   (''/x/b/c'', ''/x/b/c/c''),
                   (''/x/b/c/..'', ''/x/b/c''),
                   (''/x/l/../m/proc'', ''/x/m/proc''),
                   (''/x/m/proc'', ''/proc''),
                   (''/x/m/proc/..'', ''/''),
                   (''/proc/..'', ''/'')] p of
        Some q \<Rightarrow> q
      | None \<Rightarrow> p)"

definition loop_host :: os_env where
  "loop_host =
     \<lparr>realpath = loop_realpath,
      ismount = (\<lambda>p. p \<in> set [''/'', ''/proc'', ''/x/m/proc'']),
      df_T = (\<lambda>f. df_failed),
      isfile = (\<lambda>p. False),
      open_r = (\<lambda>p. Inl ''[Errno 2] No such file or directory'')\<rparr>"

text \<open>
  Four open files: one on which the ioctl answers 4096, one on which the ioctl is not
  supported and \<^verbatim>\<open>os.fstat\<close> reports a block size of 512, one on which the
  ioctl is not supported and \<^verbatim>\<open>os.fstat\<close> reports a block size of zero, and one
  on which the ioctl answers zero and the status has no \<^verbatim>\<open>st_blksize\<close>.
\<close>

definition file_ioctl_4096 :: file_obj where
  "file_ioctl_4096 =
     \<lparr>ioctl_FIGETBSZ = Inr 4096, fstat = \<lparr>st_blksize = Some 65536\<rparr>\<rparr>"

definition file_fstat_512 :: file_obj where
  "file_fstat_512 =
     \<lparr>ioctl_FIGETBSZ = Inl ''[Errno 25] Inappropriate ioctl for device'',
      fstat = \<lparr>st_blksize = Some 512\<rparr>\<rparr>"

definition file_fstat_0 :: file_obj where
  "file_fstat_0 =
     \<lparr>ioctl_FIGETBSZ = Inl ''[Errno 25] Inappropriate ioctl for device'',
      fstat = \<lparr>st_blksize = Some 0\<rparr>\<rparr>"

definition file_no_blksize :: file_obj where
  "file_no_blksize =
     \<lparr>ioctl_FIGETBSZ = Inr 0, fstat = \<lparr>st_blksize = None\<rparr>\<rparr>"

section \<open>Block size: the ioctl and its fallback\<close>

lemma try_FIGETBSZ_cases:
  "(\<exists>err. try_FIGETBSZ file_obj = Inl (IOError err)) \<or>
   (\<exists>w. ioctl_FIGETBSZ file_obj = Inr w \<and> w \<noteq> 0 \<and> try_FIGETBSZ file_obj = Inr (uint w))"
  by (cases "ioctl_FIGETBSZ file_obj") (auto simp: try_FIGETBSZ_def Let_def)

lemma try_FIGETBSZ_fails_iff:
  "(\<exists>err. try_FIGETBSZ file_obj = Inl (IOError err)) \<longleftrightarrow>
   (\<exists>err. ioctl_FIGETBSZ file_obj = Inl err) \<or> ioctl_FIGETBSZ file_obj = Inr 0"
  by (cases "ioctl_FIGETBSZ file_obj") (auto simp: try_FIGETBSZ_def Let_def uint_0_iff)

lemma get_block_size_ioctl_path:
  "ioctl_FIGETBSZ file_obj = Inr w \<Longrightarrow> w \<noteq> 0 \<Longrightarrow>
     get_block_size file_obj = Inr (uint w) \<and> 0 < uint w"
  by (simp add: get_block_size_def try_FIGETBSZ_def Let_def uint_0_iff less_le)

lemma get_block_size_ioctl_example:
  "get_block_size file_ioctl_4096 = Inr 4096"
  using get_block_size_ioctl_path [of file_ioctl_4096 4096]
  by (simp add: file_ioctl_4096_def)

lemma fallback_takes_st_blksize:
  assumes "(\<exists>err. ioctl_FIGETBSZ file_obj = Inl err) \<or> ioctl_FIGETBSZ file_obj = Inr 0"
  shows "get_block_size file_obj =
          (case st_blksize (fstat file_obj) of
             Some bsize \<Rightarrow> Inr bsize
           | None \<Rightarrow> Inl (IOError ''Unable to determine block size''))"
proof -
  from assms obtain err where "try_FIGETBSZ file_obj = Inl (IOError err)"
    using try_FIGETBSZ_fails_iff by blast
  then show ?thesis by (simp add: get_block_size_def Let_def)
qed

lemma get_block_size_error:
  assumes "get_block_size file_obj = Inl e"
  shows "e = IOError ''Unable to determine block size'' \<and> st_blksize (fstat file_obj) = None \<and>
         ((\<exists>err. ioctl_FIGETBSZ file_obj = Inl err) \<or> ioctl_FIGETBSZ file_obj = Inr 0)"
proof -
  from try_FIGETBSZ_cases [of file_obj] show ?thesis
  proof
    assume "\<exists>err. try_FIGETBSZ file_obj = Inl (IOError err)"
    then obtain err where f: "try_FIGETBSZ file_obj = Inl (IOError err)" ..
    then have "(\<exists>err. ioctl_FIGETBSZ file_obj = Inl err) \<or> ioctl_FIGETBSZ file_obj = Inr 0"
      using try_FIGETBSZ_fails_iff by blast
    with f assms show ?thesis
      by (auto simp: get_block_size_def Let_def split: option.splits)
  next
    assume "\<exists>w. ioctl_FIGETBSZ file_obj = Inr w \<and> w \<noteq> 0 \<and> try_FIGETBSZ file_obj = Inr (uint w)"
    with assms show ?thesis by (auto simp: get_block_size_def)
  qed
qed

text \<open>
  Claim C6.  When the block-size ioctl fails, or answers zero, the exception stays inside
  \<^verbatim>\<open>get_block_size\<close>: the result is the \<^verbatim>\<open>st_blksize\<close> of the file's status when
  the status has that field, and the \<^verbatim>\<open>IOError\<close> "Unable to determine block size"
  when it has not.  And \<^verbatim>\<open>get_block_size\<close> raises only in that last case: the ioctl
  gave no value and the field is absent.
\<close>

theorem get_block_size_fallback:
  "((\<exists>err. ioctl_FIGETBSZ file_obj = Inl err) \<or> ioctl_FIGETBSZ file_obj = Inr 0 \<longrightarrow>
      get_block_size file_obj =
        (case st_blksize (fstat file_obj) of
           Some bsize \<Rightarrow> Inr bsize
         | None \<Rightarrow> Inl (IOError ''Unable to determine block size''))) \<and>
   (isl (get_block_size file_obj) \<longrightarrow>
      get_block_size file_obj = Inl (IOError ''Unable to determine block size'') \<and>
      st_blksize (fstat file_obj) = None \<and>
      ((\<exists>err. ioctl_FIGETBSZ file_obj = Inl err) \<or> ioctl_FIGETBSZ file_obj = Inr 0))"
proof (intro conjI impI)
  assume "(\<exists>err. ioctl_FIGETBSZ file_obj = Inl err) \<or> ioctl_FIGETBSZ file_obj = Inr 0"
  then show "get_block_size file_obj =
        (case st_blksize (fstat file_obj) of
           Some bsize \<Rightarrow> Inr bsize
         | None \<Rightarrow> Inl (IOError ''Unable to determine block size''))"
    by (rule fallback_takes_st_blksize)
next
  assume "isl (get_block_size file_obj)"
  then obtain e where e: "get_block_size file_obj = Inl e"
    by (cases "get_block_size file_obj") simp_all
  from get_block_size_error [OF e] e
  show "get_block_size file_obj = Inl (IOError ''Unable to determine block size'')"
    and "st_blksize (fstat file_obj) = None"
    and "(\<exists>err. ioctl_FIGETBSZ file_obj = Inl err) \<or> ioctl_FIGETBSZ file_obj = Inr 0"
    by simp_all
qed

theorem get_block_size_fallback_witness:
  "ioctl_FIGETBSZ file_fstat_512 = Inl ''[Errno 25] Inappropriate ioctl for device'' \<and>
   get_block_size file_fstat_512 = Inr 512 \<and>
   ioctl_FIGETBSZ file_no_blksize = Inr 0 \<and>
   isl (get_block_size file_no_blksize) \<and>
   get_block_size file_no_blksize = Inl (IOError ''Unable to determine block size'') \<and>
   st_blksize (fstat file_no_blksize) = None"
proof -
  have h1: "ioctl_FIGETBSZ file_fstat_512 = Inl ''[Errno 25] Inappropriate ioctl for device''"
    by (simp add: file_fstat_512_def)
  have s1: "st_blksize (fstat file_fstat_512) = Some 512"
    by (simp add: file_fstat_512_def)
  have h2: "ioctl_FIGETBSZ file_no_blksize = Inr 0"
    by (simp add: file_no_blksize_def)
  have "get_block_size file_fstat_512 =
          (case st_blksize (fstat file_fstat_512) of
             Some bsize \<Rightarrow> Inr bsize
           | None \<Rightarrow> Inl (IOError ''Unable to determine block size''))"
    using get_block_size_fallback [of file_fstat_512] h1 by blast
  then have c1: "get_block_size file_fstat_512 = Inr 512"
    by (simp only: s1 option.case)
  have l: "isl (get_block_size file_no_blksize)"
    by (simp add: get_block_size_def try_FIGETBSZ_def file_no_blksize_def)
  with get_block_size_fallback [of file_no_blksize]
  have c2: "get_block_size file_no_blksize = Inl (IOError ''Unable to determine block size'') \<and>
      st_blksize (fstat file_no_blksize) = None"
    by blast
  from h1 h2 c1 c2 l show ?thesis by blast
qed

text \<open>
  Claim C3.  The zero test of the ioctl path is missing on the fallback path: when
  the ioctl is not supported and \<^verbatim>\<open>os.fstat\<close> reports a block size of zero,
  \<^verbatim>\<open>get_block_size\<close> returns zero.
\<close>

theorem get_block_size_zero:
  "get_block_size file_fstat_0 = Inr 0"
  by (simp add: get_block_size_def try_FIGETBSZ_def file_fstat_0_def)

section \<open>The compatibility verdict\<close>



text \<open>
  Claim C2.  \<^verbatim>\<open>is_zfs_compatible\<close> returns \<^verbatim>\<open>True\<close> exactly when the parameter
  file is a file, opens, and its first line is read by \<^verbatim>\<open>int\<close> as 1; it returns
  \<^verbatim>\<open>False\<close>, raising nothing, when the parameter path is not a file; and it raises
  exactly when the file is there and either cannot be opened or has a first line that
  \<^verbatim>\<open>int\<close> rejects.
\<close>

theorem is_zfs_compatible_cases:
  "(is_zfs_compatible env = Inr True \<longleftrightarrow>
      isfile env get_zfs_compat_param_path \<and>
      (\<exists>f. open_r env get_zfs_compat_param_path = Inr f \<and> py_int (readline f) = Some 1)) \<and>
   (\<not> isfile env get_zfs_compat_param_path \<longrightarrow> is_zfs_compatible env = Inr False) \<and>
   (isl (is_zfs_compatible env) \<longleftrightarrow>
      isfile env get_zfs_compat_param_path \<and>
      ((\<exists>err. open_r env get_zfs_compat_param_path = Inl err) \<or>
       (\<exists>f. open_r env get_zfs_compat_param_path = Inr f \<and> py_int (readline f) = None)))"
  unfolding is_zfs_compatible_def Let_def
  by (cases "isfile env get_zfs_compat_param_path";
      cases "open_r env get_zfs_compat_param_path") (simp_all split: option.splits)

theorem is_zfs_compatible_cases_witness:
  "is_zfs_compatible (plain_host df_zfs (Some (Inr (''1'' @ [CHR 0x0A])))) = Inr True \<and>
   is_zfs_compatible (plain_host df_zfs (Some (Inr ''0''))) \<noteq> Inr True \<and>
   \<not> isfile (plain_host df_zfs None) get_zfs_compat_param_path \<and>
   is_zfs_compatible (plain_host df_zfs None) = Inr False \<and>
   isl (is_zfs_compatible (plain_host df_zfs (Some (Inl ''[Errno 13] Permission denied'')))) \<and>
   isl (is_zfs_compatible (plain_host df_zfs (Some (Inr ''on''))))"
proof -
  have f: "\<And>r. isfile (plain_host df_zfs (Some r)) get_zfs_compat_param_path"
    by (simp add: plain_host_def)
  have nf: "\<not> isfile (plain_host df_zfs None) get_zfs_compat_param_path"
    by (simp add: plain_host_def)
  have o: "\<And>r. open_r (plain_host df_zfs (Some r)) get_zfs_compat_param_path = r"
    by (simp add: plain_host_def)
  have p1: "py_int (readline (''1'' @ [CHR 0x0A])) = Some 1" by code_simp
  have p0: "py_int (readline ''0'') = Some 0" by code_simp
  have pn: "py_int (readline ''on'') = None" by code_simp
  from is_zfs_compatible_cases [of "plain_host df_zfs (Some (Inr (''1'' @ [CHR 0x0A])))"] f o p1
  have 1: "is_zfs_compatible (plain_host df_zfs (Some (Inr (''1'' @ [CHR 0x0A])))) = Inr True"
    by blast
  from is_zfs_compatible_cases [of "plain_host df_zfs (Some (Inr ''0''))"] f o p0
  have 2: "is_zfs_compatible (plain_host df_zfs (Some (Inr ''0''))) \<noteq> Inr True"
    by auto
  from is_zfs_compatible_cases [of "plain_host df_zfs None"] nf
  have 3: "is_zfs_compatible (plain_host df_zfs None) = Inr False"
    by blast
  from is_zfs_compatible_cases [of "plain_host df_zfs (Some (Inl ''[Errno 13] Permission denied''))"] f o
  have 4: "isl (is_zfs_compatible (plain_host df_zfs (Some (Inl ''[Errno 13] Permission denied''))))"
    by blast
  from is_zfs_compatible_cases [of "plain_host df_zfs (Some (Inr ''on''))"] f o pn
  have 5: "isl (is_zfs_compatible (plain_host df_zfs (Some (Inr ''on''))))"
    by blast
  from 1 2 nf 3 4 5 show ?thesis by blast
qed

section \<open>The file-system type from the output of df\<close>

text \<open>
  \<^verbatim>\<open>split(None, 2)\<close> cuts at most twice, so its first two items are the first two
  white-space separated fields, and it has two items exactly when there are two fields.
  A field is never empty.
\<close>

lemma split_ws_Nil: "dropWhile isspace s = [] \<Longrightarrow> split_ws s = []"
  by (subst split_ws.simps) simp

lemma split_ws_Cons:
  "dropWhile isspace s \<noteq> [] \<Longrightarrow>
     split_ws s = takeWhile (\<lambda>c. \<not> isspace c) (dropWhile isspace s)
                  # split_ws (dropWhile (\<lambda>c. \<not> isspace c) (dropWhile isspace s))"
  by (subst split_ws.simps) (simp add: Let_def)

lemma split_ws_eq_Nil_iff: "split_ws s = [] \<longleftrightarrow> dropWhile isspace s = []"
  by (cases "dropWhile isspace s = []") (simp_all add: split_ws_Nil split_ws_Cons)

lemma field_not_empty:
  assumes "dropWhile isspace s \<noteq> []"
  shows "takeWhile (\<lambda>c. \<not> isspace c) (dropWhile isspace s) \<noteq> []"
proof -
  from assms have "\<not> isspace (hd (dropWhile isspace s))" by (rule hd_dropWhile)
  with assms show ?thesis by (cases "dropWhile isspace s") simp_all
qed

lemma split_ws_not_empty: "x \<in> set (split_ws s) \<Longrightarrow> x \<noteq> []"
proof (induction s arbitrary: x rule: split_ws.induct)
  case (1 s)
  show ?case
  proof (cases "dropWhile isspace s = []")
    case True
    with "1.prems" show ?thesis by (simp add: split_ws_Nil)
  next
    case False
    with "1.prems" have "x = takeWhile (\<lambda>c. \<not> isspace c) (dropWhile isspace s) \<or>
        x \<in> set (split_ws (dropWhile (\<lambda>c. \<not> isspace c) (dropWhile isspace s)))"
      by (simp add: split_ws_Cons)
    then show ?thesis
    proof
      assume "x = takeWhile (\<lambda>c. \<not> isspace c) (dropWhile isspace s)"
      with False show ?thesis by (simp add: field_not_empty)
    next
      assume "x \<in> set (split_ws (dropWhile (\<lambda>c. \<not> isspace c) (dropWhile isspace s)))"
      with False show ?thesis by (rule "1.IH" [OF refl])
    qed
  qed
qed

lemma length_split_None:
  "length (split_None maxsplit s) = min (Suc maxsplit) (length (split_ws s))"
proof (induction maxsplit arbitrary: s)
  case 0
  show ?case
    by (cases "dropWhile isspace s = []") (simp_all add: Let_def split_ws_Nil split_ws_Cons)
next
  case (Suc n)
  show ?case
    by (cases "dropWhile isspace s = []") (simp_all add: Let_def split_ws_Nil split_ws_Cons Suc.IH)
qed

lemma take_split_None:
  "take maxsplit (split_None maxsplit s) = take maxsplit (split_ws s)"
proof (induction maxsplit arbitrary: s)
  case 0
  show ?case by simp
next
  case (Suc n)
  show ?case
    by (cases "dropWhile isspace s = []") (simp_all add: Let_def split_ws_Nil split_ws_Cons Suc.IH)
qed

lemma split_None_2_fields:
  "(2 \<le> length (split_None 2 s)) = (2 \<le> length (split_ws s))"
  "2 \<le> length (split_ws s) \<Longrightarrow> split_None 2 s ! 1 = split_ws s ! 1"
proof -
  show "(2 \<le> length (split_None 2 s)) = (2 \<le> length (split_ws s))"
    by (simp add: length_split_None)
  assume "2 \<le> length (split_ws s)"
  have "split_None 2 s ! 1 = take 2 (split_None 2 s) ! 1" by simp
  also have "\<dots> = take 2 (split_ws s) ! 1" by (simp only: take_split_None)
  also have "\<dots> = split_ws s ! 1" by simp
  finally show "split_None 2 s ! 1 = split_ws s ! 1" .
qed

lemma second_field_not_empty:
  assumes "2 \<le> length (split_ws s)"
  shows "lower (split_ws s ! 1) \<noteq> []"
proof -
  from assms have "split_ws s ! 1 \<in> set (split_ws s)" by simp
  then have "split_ws s ! 1 \<noteq> []" by (rule split_ws_not_empty)
  then show ?thesis by (simp add: lower_def)
qed

lemma splitlines_Nil: "splitlines [] = []"
  by (simp add: splitlines_def)

lemma parse_ftype_eq:
  "parse_ftype stdout =
     (if 2 \<le> length (splitlines stdout) \<and> 2 \<le> length (split_ws (splitlines stdout ! 1))
      then Some (lower (split_ws (splitlines stdout ! 1) ! 1)) else None)"
proof (cases "stdout = []")
  case True
  then show ?thesis by (simp add: parse_ftype_def splitlines_Nil)
next
  case False
  then show ?thesis
    by (simp add: parse_ftype_def Let_def split_None_2_fields del: One_nat_def)
qed

lemma second_field_is_returned:
  assumes "df_T env (realpath env filepath) = (stdout, stderr)"
    and "2 \<le> length (splitlines stdout) \<and> 2 \<le> length (split_ws (splitlines stdout ! 1))"
  shows "get_file_system_type env filepath = Inr (lower (split_ws (splitlines stdout ! 1) ! 1))"
proof -
  from assms(2)
  have "parse_ftype stdout = Some (lower (split_ws (splitlines stdout ! 1) ! 1))"
    by (simp only: parse_ftype_eq simp_thms if_True)
  moreover from assms(2) have "lower (split_ws (splitlines stdout ! 1) ! 1) \<noteq> []"
    by (simp add: second_field_not_empty del: One_nat_def)
  ultimately show ?thesis
    using assms(1) by (simp add: get_file_system_type_def)
qed

text \<open>
  Claim C4.  When the standard output of \<^verbatim>\<open>df\<close> has at least two lines and the
  second line has at least two white-space separated fields, \<^verbatim>\<open>get_file_system_type\<close>
  returns the second field of the second line, in lower case.
\<close>

theorem get_file_system_type_second_field:
  assumes "df_T env (realpath env filepath) = (stdout, stderr)"
    and "2 \<le> length (splitlines stdout)"
    and "2 \<le> length (split_ws (splitlines stdout ! 1))"
  shows "get_file_system_type env filepath = Inr (lower (split_ws (splitlines stdout ! 1) ! 1))"
  using assms by (intro second_field_is_returned conjI)

theorem get_file_system_type_second_field_witness:
  "df_T (plain_host df_ext4 None) (realpath (plain_host df_ext4 None) ''/tmp/link.img'') = df_ext4 \<and>
   2 \<le> length (splitlines (fst df_ext4)) \<and>
   2 \<le> length (split_ws (splitlines (fst df_ext4) ! 1)) \<and>
   split_ws (splitlines (fst df_ext4) ! 1) ! 1 = ''EXT4'' \<and>
   get_file_system_type (plain_host df_ext4 None) ''/tmp/link.img'' = Inr ''ext4''"
proof -
  have d: "df_T (plain_host df_ext4 None) (realpath (plain_host df_ext4 None) ''/tmp/link.img'')
             = (fst df_ext4, snd df_ext4)"
    by (simp add: plain_host_def)
  have l: "2 \<le> length (splitlines (fst df_ext4))" by code_simp
  have f: "2 \<le> length (split_ws (splitlines (fst df_ext4) ! 1))" by code_simp
  have v: "split_ws (splitlines (fst df_ext4) ! 1) ! 1 = ''EXT4''" by code_simp
  have w: "lower ''EXT4'' = ''ext4''" by code_simp
  from get_file_system_type_second_field [OF d l f]
  have "get_file_system_type (plain_host df_ext4 None) ''/tmp/link.img'' = Inr ''ext4''"
    by (simp only: v w)
  with d l f v show ?thesis by simp
qed

text \<open>
  Claim C5.  \<^verbatim>\<open>get_file_system_type\<close> raises \<^verbatim>\<open>Error\<close>, with a message that ends
  with the standard error of \<^verbatim>\<open>df\<close>, exactly when the standard output is empty, or
  has fewer than two lines, or its second line has fewer than two fields, or the type
  field is empty; in every other case it returns the type.
\<close>

theorem get_file_system_type_error_iff:
  assumes "df_T env (realpath env filepath) = (stdout, stderr)"
  shows "get_file_system_type env filepath =
           (if stdout = [] \<or> length (splitlines stdout) < 2
               \<or> length (split_ws (splitlines stdout ! 1)) < 2
               \<or> lower (split_ws (splitlines stdout ! 1) ! 1) = []
            then Inl (Error (''no file system type was found: '' @ stderr))
            else Inr (lower (split_ws (splitlines stdout ! 1) ! 1)))"
proof (cases "2 \<le> length (splitlines stdout) \<and> 2 \<le> length (split_ws (splitlines stdout ! 1))")
  case True
  then have ne: "lower (split_ws (splitlines stdout ! 1) ! 1) \<noteq> []"
    by (simp add: second_field_not_empty del: One_nat_def)
  from True have "stdout \<noteq> []" by (auto simp: splitlines_Nil)
  with True ne second_field_is_returned [OF assms] show ?thesis
    by (simp del: One_nat_def)
next
  case False
  then have "parse_ftype stdout = None" by (simp only: parse_ftype_eq if_False)
  with assms have "get_file_system_type env filepath
      = Inl (Error (''no file system type was found: '' @ stderr))"
    by (simp add: get_file_system_type_def)
  with False show ?thesis by (auto simp del: One_nat_def)
qed

theorem get_file_system_type_error_iff_witness:
  "get_file_system_type (plain_host df_failed None) ''/tmp/link.img''
     = Inl (Error (''no file system type was found: '' @ snd df_failed)) \<and>
   get_file_system_type (plain_host df_header_only None) ''/tmp/link.img''
     = Inl (Error (''no file system type was found: '' @ snd df_header_only)) \<and>
   get_file_system_type (plain_host df_zfs None) ''/tmp/link.img'' = Inr ''zfs''"
proof -
  have d: "\<And>df. df_T (plain_host df None) (realpath (plain_host df None) ''/tmp/link.img'')
             = (fst df, snd df)"
    by (simp add: plain_host_def)
  have 1: "fst df_failed = []" by code_simp
  have 2: "length (splitlines (fst df_header_only)) < 2" by code_simp
  have 3: "fst df_zfs \<noteq> []" "\<not> length (splitlines (fst df_zfs)) < 2"
    "\<not> length (split_ws (splitlines (fst df_zfs) ! 1)) < 2"
    "lower (split_ws (splitlines (fst df_zfs) ! 1) ! 1) = ''zfs''"
    by code_simp+
  have 4: "''zfs'' \<noteq> []" by simp
  from get_file_system_type_error_iff [OF d, of df_failed]
  have a: "get_file_system_type (plain_host df_failed None) ''/tmp/link.img''
     = Inl (Error (''no file system type was found: '' @ snd df_failed))"
    by (simp only: 1 simp_thms if_True)
  from get_file_system_type_error_iff [OF d, of df_header_only]
  have b: "get_file_system_type (plain_host df_header_only None) ''/tmp/link.img''
     = Inl (Error (''no file system type was found: '' @ snd df_header_only))"
    by (simp only: 2 simp_thms if_True)
  from get_file_system_type_error_iff [OF d, of df_zfs]
  have c: "get_file_system_type (plain_host df_zfs None) ''/tmp/link.img'' = Inr ''zfs''"
    by (simp only: 3 4 simp_thms if_False)
  from a b c show ?thesis by blast
qed

section \<open>The classes of the exceptions\<close>





section \<open>The mount point\<close>

text \<open>
  What the loop returns, when it returns: a path that \<^verbatim>\<open>os.path.ismount\<close> accepts or
  the root, reached from the path at the loop's head by taking the canonical parent
  \<^verbatim>\<open>realpath(join(f, pardir))\<close> some number of times.
\<close>

lemma mount_point_loop_result:
  assumes "mount_point_loop env f = Some r"
  shows "(ismount env r \<or> r = os_sep) \<and>
         (\<exists>n. ((\<lambda>g. realpath env (os_path_join g os_pardir)) ^^ n) f = r)"
proof (rule mount_point_loop.raw_induct
    [where P = "\<lambda>env f r. (ismount env r \<or> r = os_sep) \<and>
         (\<exists>n. ((\<lambda>g. realpath env (os_path_join g os_pardir)) ^^ n) f = r)", OF _ assms])
  fix loop :: "os_env \<Rightarrow> string \<Rightarrow> string option" and env f r
  assume IH: "\<And>env f r. loop env f = Some r \<Longrightarrow>
      (ismount env r \<or> r = os_sep) \<and>
      (\<exists>n. ((\<lambda>g. realpath env (os_path_join g os_pardir)) ^^ n) f = r)"
    and step: "(if f \<noteq> os_sep then
                  (if ismount env f then Some f
                   else loop env (realpath env (os_path_join f os_pardir)))
                else Some f) = Some r"
  show "(ismount env r \<or> r = os_sep) \<and>
        (\<exists>n. ((\<lambda>g. realpath env (os_path_join g os_pardir)) ^^ n) f = r)"
  proof (cases "f \<noteq> os_sep \<and> \<not> ismount env f")
    case True
    with step have "loop env (realpath env (os_path_join f os_pardir)) = Some r"
      by simp
    from IH [OF this]
    obtain n where m: "ismount env r \<or> r = os_sep"
      and n: "((\<lambda>g. realpath env (os_path_join g os_pardir)) ^^ n)
                (realpath env (os_path_join f os_pardir)) = r"
      by blast
    from n have "((\<lambda>g. realpath env (os_path_join g os_pardir)) ^^ Suc n) f = r"
      by (simp only: funpow_Suc_right o_apply)
    with m show ?thesis by blast
  next
    case False
    with step have r: "r = f" by (auto split: if_splits)
    with False have "ismount env r \<or> r = os_sep" by blast
    moreover from r have "((\<lambda>g. realpath env (os_path_join g os_pardir)) ^^ 0) f = r" by simp
    ultimately show ?thesis by blast
  qed
qed

lemma mount_point_loop_stops:
  "ismount env f \<or> f = os_sep \<Longrightarrow> mount_point_loop env f = Some f"
  by (subst mount_point_loop.simps) auto

lemma get_mount_point_result:
  assumes "get_mount_point env filepath = Some r"
  shows "(ismount env r \<or> r = os_sep) \<and>
         (\<exists>n. ((\<lambda>g. realpath env (os_path_join g os_pardir)) ^^ n) (realpath env filepath) = r)"
  using assms unfolding get_mount_point_def by (rule mount_point_loop_result)

lemma get_mount_point_root:
  "realpath env filepath = os_sep \<Longrightarrow> get_mount_point env filepath = Some os_sep"
  by (simp add: get_mount_point_def mount_point_loop_stops)

text \<open>
  The loop returns whenever the canonical parent of a path that is neither the root nor
  a mount point is smaller in some measure \<open>m\<close>, such as the number of components of
  the path on a host where \<^verbatim>\<open>realpath\<close> resolves every path; the number of iterations
  is then at most the measure of the first path.
\<close>

lemma mount_point_loop_terminates:
  fixes m :: "string \<Rightarrow> nat"
  assumes "\<And>g. g \<noteq> os_sep \<Longrightarrow> \<not> ismount env g \<Longrightarrow>
             m (realpath env (os_path_join g os_pardir)) < m g"
  shows "\<exists>r n. n \<le> m f \<and> mount_point_loop env f = Some r \<and>
           ((\<lambda>g. realpath env (os_path_join g os_pardir)) ^^ n) f = r"
proof (induction "m f" arbitrary: f rule: less_induct)
  case less
  show ?case
  proof (cases "f \<noteq> os_sep \<and> \<not> ismount env f")
    case True
    then have d: "m (realpath env (os_path_join f os_pardir)) < m f" by (simp add: assms)
    from less [OF this] obtain r n
      where n: "n \<le> m (realpath env (os_path_join f os_pardir))"
        and r: "mount_point_loop env (realpath env (os_path_join f os_pardir)) = Some r"
        and i: "((\<lambda>g. realpath env (os_path_join g os_pardir)) ^^ n)
                  (realpath env (os_path_join f os_pardir)) = r"
      by blast
    from n d have "Suc n \<le> m f" by simp
    moreover from r True have "mount_point_loop env f = Some r"
      by (subst mount_point_loop.simps) simp
    moreover from i have "((\<lambda>g. realpath env (os_path_join g os_pardir)) ^^ Suc n) f = r"
      by (simp only: funpow_Suc_right o_apply)
    ultimately show ?thesis by blast
  next
    case False
    then have "mount_point_loop env f = Some f" by (intro mount_point_loop_stops) blast
    moreover have "((\<lambda>g. realpath env (os_path_join g os_pardir)) ^^ 0) f = f" by simp
    ultimately show ?thesis by blast
  qed
qed

text \<open>
  On the host with the two links that point at each other, the canonical parent of
  \<^verbatim>\<open>/x/a/c\<close> is \<^verbatim>\<open>/x/a/c\<close> itself, which is neither the root nor a mount
  point, and likewise for \<^verbatim>\<open>/x/b/c\<close>: from there the loop never returns.
\<close>

lemma loop_host_never_returns:
  assumes "mount_point_loop env f = Some r"
  shows "\<not> (env = loop_host \<and> (f = ''/x/a/c'' \<or> f = ''/x/b/c''))"
proof (rule mount_point_loop.raw_induct
    [where P = "\<lambda>env f r. \<not> (env = loop_host \<and> (f = ''/x/a/c'' \<or> f = ''/x/b/c''))",
     OF _ assms])
  fix loop :: "os_env \<Rightarrow> string \<Rightarrow> string option" and env f r
  assume IH: "\<And>env f r. loop env f = Some r \<Longrightarrow>
      \<not> (env = loop_host \<and> (f = ''/x/a/c'' \<or> f = ''/x/b/c''))"
    and step: "(if f \<noteq> os_sep then
                  (if ismount env f then Some f
                   else loop env (realpath env (os_path_join f os_pardir)))
                else Some f) = Some r"
  show "\<not> (env = loop_host \<and> (f = ''/x/a/c'' \<or> f = ''/x/b/c''))"
  proof
    assume h: "env = loop_host \<and> (f = ''/x/a/c'' \<or> f = ''/x/b/c'')"
    then have s: "f \<noteq> os_sep" by (auto simp: os_sep_def)
    from h have m: "\<not> ismount env f" by (auto simp: loop_host_def)
    from h have p: "realpath env (os_path_join f os_pardir) = f"
      by (auto simp: loop_host_def loop_realpath_def os_pardir_def os_path_join_def)
    from step s m p have "loop env f = Some r" by simp
    from IH [OF this] h show False by blast
  qed
qed

text \<open>
  Claim C8.  The loop of \<^verbatim>\<open>get_mount_point\<close> does not end on every path: for the
  link \<^verbatim>\<open>/x/a\<close> of the host with the loop of links, \<^verbatim>\<open>realpath\<close> gives
  \<^verbatim>\<open>/x/a/c\<close>, each iteration computes that path again, and
  \<^verbatim>\<open>get_mount_point\<close> never returns.
\<close>

theorem get_mount_point_symlink_loop:
  "get_mount_point loop_host ''/x/a'' = None"
proof (cases "get_mount_point loop_host ''/x/a''")
  case None
  then show ?thesis .
next
  case (Some r)
  have "realpath loop_host ''/x/a'' = ''/x/a/c''"
    by (simp add: loop_host_def loop_realpath_def)
  with Some have "mount_point_loop loop_host ''/x/a/c'' = Some r"
    by (simp add: get_mount_point_def)
  from loop_host_never_returns [OF this] show ?thesis by simp
qed

text \<open>
  Claim C7.  \<^verbatim>\<open>get_mount_point\<close> does not return an ancestor that is a mount point
  or the root for every path: for the link \<^verbatim>\<open>/x/b\<close> of the same host it returns
  nothing at all.  (Where it does return, the result is as the claim says:
  \<open>get_mount_point_result\<close> and \<open>get_mount_point_root\<close>.)
\<close>

theorem get_mount_point_no_result:
  "get_mount_point loop_host ''/x/b'' = None"
proof (cases "get_mount_point loop_host ''/x/b''")
  case None
  then show ?thesis .
next
  case (Some r)
  have "realpath loop_host ''/x/b'' = ''/x/b/c''"
    by (simp add: loop_host_def loop_realpath_def)
  with Some have "mount_point_loop loop_host ''/x/b/c'' = Some r"
    by (simp add: get_mount_point_def)
  from loop_host_never_returns [OF this] show ?thesis by simp
qed

text \<open>
  Claim C10, as amended.  When \<^verbatim>\<open>get_mount_point\<close> returns \<open>r\<close> for a path and
  \<^verbatim>\<open>realpath\<close> leaves \<open>r\<close> as it is, \<^verbatim>\<open>get_mount_point\<close> returns \<open>r\<close> for
  \<open>r\<close>; and \<open>r\<close> is a mount point or the root.
\<close>

theorem get_mount_point_idempotent:
  assumes "get_mount_point env filepath = Some r" and "realpath env r = r"
  shows "get_mount_point env r = Some r \<and> (ismount env r \<or> r = os_sep)"
proof -
  from assms(1) have m: "ismount env r \<or> r = os_sep"
    by (simp add: get_mount_point_result)
  then have "mount_point_loop env r = Some r" by (rule mount_point_loop_stops)
  with assms(2) have "get_mount_point env r = Some r" by (simp add: get_mount_point_def)
  with m show ?thesis by blast
qed

theorem get_mount_point_idempotent_witness:
  "get_mount_point (plain_host df_ext4 None) ''/tmp/link.img'' = Some ''/mnt'' \<and>
   realpath (plain_host df_ext4 None) ''/mnt'' = ''/mnt'' \<and>
   get_mount_point (plain_host df_ext4 None) ''/mnt'' = Some ''/mnt'' \<and>
   ismount (plain_host df_ext4 None) ''/mnt''"
proof -
  have 1: "get_mount_point (plain_host df_ext4 None) ''/tmp/link.img'' = Some ''/mnt''"
    by code_simp
  have 2: "realpath (plain_host df_ext4 None) ''/mnt'' = ''/mnt''"
    by code_simp
  have 3: "''/mnt'' \<noteq> os_sep" by (simp add: os_sep_def)
  from get_mount_point_idempotent [OF 1 2] 1 2 3 show ?thesis by blast
qed

text \<open>
  Claim C10, as stated, fails where \<^verbatim>\<open>realpath\<close> has given up on a loop of links
  and returned a path that is not canonical: \<^verbatim>\<open>/x/m/proc\<close>, reached through the link
  \<^verbatim>\<open>/x/m\<close>, is a mount point, and its own mount point is \<^verbatim>\<open>/proc\<close>.
\<close>

theorem get_mount_point_not_idempotent:
  "get_mount_point loop_host ''/x/l/../m/proc'' = Some ''/x/m/proc'' \<and>
   get_mount_point loop_host ''/x/m/proc'' = Some ''/proc'' \<and>
   get_mount_point loop_host ''/x/m/proc'' \<noteq> get_mount_point loop_host ''/x/l/../m/proc''"
  by code_simp

end
